theory Spec2Isabelle
  imports Main
begin

section \<open>Data of the frame controller and of the process manager\<close>

text \<open>
  A process id is a JavaScript number. The child object kept in \<open>processes[pid]\<close> is
  reduced to what \<open>spawn\<close> was called with.
\<close>

type_synonym pid = int

record child_process =
  child_pid :: pid
  spawnfile :: string
  spawnargs :: "string list"

text \<open>A value a promise is rejected with, or that is thrown: \<open>reject()\<close> passes \<open>undefined\<close>.\<close>

datatype jserr = Undefined | TypeError | Err string

text \<open>How an asynchronous collaborator answers: the promise it returns is fulfilled,
  rejected, or never settled.\<close>

datatype 'a promise = Fulfilled 'a | Rejected jserr | Pending

text \<open>How a synchronous call comes back to its caller.\<close>

datatype completion = Returned | Threw jserr

record format =
  start_command :: string
  end_command :: "string option"
  download :: bool

record artwork =
  art_id :: string
  art_url :: string
  art_format :: format

record frame =
  frame_id :: "string option"
  frame_name :: string
  frame_plugins :: "(string \<times> string) list"
  frame_current_artwork :: "artwork option"

text \<open>
  The calls that leave the two modules, in the order they are made:
  \<open>spawn(bin, args, {detached: true})\<close>, \<open>child_process.exec(command, ...)\<close>,
  \<open>process.kill(-pid)\<close> with what it threw if it threw,
  \<open>downloader.downloadFile(url, name)\<close>, \<open>Frame_findById({id})\<close>,
  \<open>OpenframeUser_prototype_create_frames({data: {name, settings, plugins}, id})\<close>,
  \<open>config.save()\<close>, \<open>pm.installPlugins\<close>, \<open>pm.initPlugins\<close> and \<open>pubsub.init\<close>.
  Console output is not part of the model.
\<close>

datatype event =
    Spawn string "string list"
  | Exec "string option"
  | ProcessKill int "jserr option"
  | DownloadFile string string
  | FindById string
  | CreateFrames string string "(string \<times> string) list"
  | ConfigSave
  | InstallPlugins "(string \<times> string) list"
  | InitPlugins "(string \<times> string) list"
  | PubsubInit

text \<open>
  The module members \<open>processes\<close> and \<open>processStack\<close> of the process manager, the
  controller's \<open>fc.config.ofrc.frame\<close> and \<open>fc.current_artwork\<close>, the trace of outgoing
  calls, and the rejections no handler ever receives.
\<close>

record world =
  processes :: "pid \<rightharpoonup> child_process"
  processStack :: "pid list"
  ofrc_frame :: "frame option"
  fc_current_artwork :: "artwork option"
  events :: "event list"
  unhandled :: "jserr list"

definition pm_init :: world where
  "pm_init = \<lparr>processes = Map.empty, processStack = [], ofrc_frame = None,
              fc_current_artwork = None, events = [], unhandled = []\<rparr>"

section \<open>process-manager.js\<close>

text \<open>\<open>String.prototype.split\<close> with a one-character separator: every occurrence of the
  separator ends a token, so the result is never empty (the first branch of the \<open>case\<close>
  is never taken) and may hold empty tokens.\<close>

fun split_on :: "char \<Rightarrow> string \<Rightarrow> string list" where
  "split_on sep [] = [[]]"
| "split_on sep (c # cs) =
     (if c = sep then [] # split_on sep cs
      else (case split_on sep cs of [] \<Rightarrow> [[c]] | t # ts \<Rightarrow> (c # t) # ts))"

text \<open>\<open>Array.prototype.indexOf\<close>: the first index holding the value, \<open>-1\<close> when there is none.\<close>

fun indexOf :: "'a list \<Rightarrow> 'a \<Rightarrow> int" where
  "indexOf [] x = - 1"
| "indexOf (y # ys) x =
     (if y = x then 0 else (let i = indexOf ys x in if i = - 1 then - 1 else i + 1))"

text \<open>\<open>xs.splice(i, 1)\<close> for an index \<open>i\<close> that is not negative.\<close>

definition splice1 :: "int \<Rightarrow> 'a list \<Rightarrow> 'a list" where
  "splice1 i xs = take (nat i) xs @ drop (Suc (nat i)) xs"

text \<open>\<open>startProcess(command)\<close>; \<open>new_pid\<close> is the \<open>child.pid\<close> that \<open>spawn\<close> answers with.
  The call of \<open>spawn\<close> is recorded as made; what the operating system does with a binary
  it cannot run is not part of the model.\<close>

definition startProcess :: "string \<Rightarrow> pid \<Rightarrow> world \<Rightarrow> world" where
  "startProcess command new_pid w =
     (let command_ary = split_on (CHR '' '') command;
          command_bin = hd command_ary;
          command_args = drop 1 command_ary;
          child = \<lparr>child_pid = new_pid, spawnfile = command_bin, spawnargs = command_args\<rparr>
      in w\<lparr>processes := (processes w)(new_pid \<mapsto> child),
           processStack := processStack w @ [new_pid],
           events := events w @ [Spawn command_bin command_args]\<rparr>)"

text \<open>\<open>killProcess(pid)\<close>; \<open>thrown\<close> is what \<open>process.kill(-pid)\<close> threw, if it threw: the
  \<open>catch\<close> only prints it.\<close>

definition killProcess :: "pid \<Rightarrow> jserr option \<Rightarrow> world \<Rightarrow> world" where
  "killProcess p thrown w =
     (let w1 = w\<lparr>events := events w @ [ProcessKill (- p) thrown]\<rparr>;
          w2 = w1\<lparr>processes := (processes w1)(p := None)\<rparr>;
          stack_idx = indexOf (processStack w2) p
      in if stack_idx \<noteq> - 1
         then w2\<lparr>processStack := splice1 stack_idx (processStack w2)\<rparr>
         else w2)"

text \<open>\<open>_exec(command)\<close>, exported as \<open>exec\<close>. The function declares one parameter and never
  reads \<open>arguments\<close>: whatever else a caller passes (\<open>extra\<close>) is dropped. The callback it
  hands to \<open>child_process.exec\<close> itself only prints the error.\<close>

definition pm_exec :: "string option \<Rightarrow> 'x \<Rightarrow> world \<Rightarrow> world" where
  "pm_exec command extra w = w\<lparr>events := events w @ [Exec command]\<rparr>"

definition getCurrentProcess :: "world \<Rightarrow> pid option" where
  "getCurrentProcess w = (case processStack w of [] \<Rightarrow> None | p # _ \<Rightarrow> Some p)"

text \<open>\<open>killCurrentProcess()\<close>: \<open>if (cur_proc)\<close> is false for \<open>null\<close> and for the number 0.\<close>

definition killCurrentProcess :: "jserr option \<Rightarrow> world \<Rightarrow> world" where
  "killCurrentProcess thrown w =
     (case getCurrentProcess w of
        None \<Rightarrow> w
      | Some cur_proc \<Rightarrow> if cur_proc \<noteq> 0 then killProcess cur_proc thrown w else w)"

text \<open>The exported operations, as a caller of the module issues them. \<open>Start\<close> carries
  the pid that \<open>spawn\<close> answers with, the two kills what \<open>process.kill\<close> threw.\<close>

datatype pm_op =
    Start string pid
  | Kill pid "jserr option"
  | KillCurrent "jserr option"
  | ExecCmd "string option"

fun apply_op :: "pm_op \<Rightarrow> world \<Rightarrow> world" where
  "apply_op (Start command new_pid) w = startProcess command new_pid w"
| "apply_op (Kill p thrown) w = killProcess p thrown w"
| "apply_op (KillCurrent thrown) w = killCurrentProcess thrown w"
| "apply_op (ExecCmd command) w = pm_exec command () w"

fun run_ops :: "pm_op list \<Rightarrow> world \<Rightarrow> world" where
  "run_ops [] w = w"
| "run_ops (op # ops) w = run_ops ops (apply_op op w)"

text \<open>Every \<open>Start\<close> of the run receives a pid that the active sequence does not hold at
  that moment.\<close>

fun fresh_starts :: "pm_op list \<Rightarrow> world \<Rightarrow> bool" where
  "fresh_starts [] w = True"
| "fresh_starts (Start command new_pid # ops) w =
     (new_pid \<notin> set (processStack w) \<and> fresh_starts ops (startProcess command new_pid w))"
| "fresh_starts (op # ops) w = fresh_starts ops (apply_op op w)"

text \<open>The mapping and the active sequence hold the same pids, each once in the sequence.\<close>

definition tracked_ok :: "world \<Rightarrow> bool" where
  "tracked_ok w = (distinct (processStack w) \<and> set (processStack w) = dom (processes w))"

text \<open>The split as the specification words it, "splits the command into a binary and
  argument list on whitespace", for comparison with \<open>split_on\<close>: a token ends at every
  space, tab, line feed, vertical tab, form feed and carriage return.\<close>

definition is_whitespace :: "char \<Rightarrow> bool" where
  "is_whitespace c = (c = CHR '' '' \<or> c = CHR 0x09 \<or> c = CHR 0x0A \<or> c = CHR 0x0B
                       \<or> c = CHR 0x0C \<or> c = CHR 0x0D)"

fun spec_split_whitespace :: "string \<Rightarrow> string list" where
  "spec_split_whitespace [] = [[]]"
| "spec_split_whitespace (c # cs) =
     (if is_whitespace c then [] # spec_split_whitespace cs
      else (case spec_split_whitespace cs of [] \<Rightarrow> [[c]] | t # ts \<Rightarrow> (c # t) # ts))"

text \<open>\<open>Array.prototype.join\<close> with a one-character separator.\<close>

fun join_with :: "char \<Rightarrow> string list \<Rightarrow> string" where
  "join_with sep [] = []"
| "join_with sep [t] = t"
| "join_with sep (t # ts) = t @ sep # join_with sep ts"

section \<open>controller.js\<close>

text \<open>
  The collaborators of the controller that are outside these sources, as functions of
  what they are called with: \<open>url.parse(u).pathname\<close>, \<open>path.basename\<close>,
  \<open>downloader.downloadFile\<close> (fulfilled with the \<open>path\<close> of the file), \<open>Frame_findById\<close>,
  \<open>OpenframeUser_prototype_create_frames\<close> (by user id and frame name), and the plugin
  manager's \<open>installPlugins\<close> and \<open>initPlugins\<close>.
\<close>

record collab =
  url_pathname :: "string \<Rightarrow> string"
  path_basename :: "string \<Rightarrow> string"
  downloadFile :: "string \<Rightarrow> string \<Rightarrow> string promise"
  findById :: "string \<Rightarrow> frame promise"
  create_frames :: "string \<Rightarrow> string \<Rightarrow> frame promise"
  installPlugins :: "(string \<times> string) list \<Rightarrow> unit promise"
  initPlugins :: "(string \<times> string) list \<Rightarrow> unit promise"

text \<open>The inner function \<open>startArt(command)\<close> of \<open>changeArtwork\<close>; \<open>curArt\<close> and \<open>artwork\<close>
  are the variables it closes over. With an artwork on display it calls
  \<open>proc_man.exec(curArt._format.end_command, function() {...})\<close>: the function that
  would start the process and store the artwork is the second argument of that call.\<close>

definition startArt :: "artwork option \<Rightarrow> artwork \<Rightarrow> pid \<Rightarrow> string \<Rightarrow> world \<Rightarrow> world" where
  "startArt curArt artwork new_pid command w =
     (case curArt of
        Some cur \<Rightarrow>
          pm_exec (end_command (art_format cur))
            (\<lambda>w'. (startProcess command new_pid w')\<lparr>fc_current_artwork := Some artwork\<rparr>) w
      | None \<Rightarrow> (startProcess command new_pid w)\<lparr>fc_current_artwork := Some artwork\<rparr>)"

text \<open>
  \<open>fc.changeArtwork()\<close>. Reading \<open>frame._current_artwork\<close> or \<open>artwork._format\<close> of
  \<open>undefined\<close> throws. The promise of \<open>downloadFile\<close> gets a \<open>then\<close> and no \<open>catch\<close>, and is
  not returned: the function always comes back with \<open>undefined\<close>. The continuation of the
  download is run at once, with the variables captured at the call.
\<close>

definition changeArtwork :: "collab \<Rightarrow> pid \<Rightarrow> world \<Rightarrow> completion \<times> world" where
  "changeArtwork env new_pid w =
     (case ofrc_frame w of
        None \<Rightarrow> (Threw TypeError, w)
      | Some frame \<Rightarrow>
         (case frame_current_artwork frame of
            None \<Rightarrow> (Threw TypeError, w)
          | Some artwork \<Rightarrow>
             (let curArt = fc_current_artwork w in
              if download (art_format artwork) then
                (let file_name = path_basename env (url_pathname env (art_url artwork));
                     dest = art_id artwork @ file_name;
                     w1 = w\<lparr>events := events w @ [DownloadFile (art_url artwork) dest]\<rparr>
                 in case downloadFile env (art_url artwork) dest of
                      Fulfilled file_path \<Rightarrow>
                        (Returned,
                         startArt curArt artwork new_pid
                           (start_command (art_format artwork) @ '' '' @ file_path) w1)
                    | Rejected e \<Rightarrow> (Returned, w1\<lparr>unhandled := unhandled w1 @ [e]\<rparr>)
                    | Pending \<Rightarrow> (Returned, w1))
              else
                (Returned,
                 startArt curArt artwork new_pid
                   (start_command (art_format artwork) @ '' '' @ art_url artwork) w))))"

text \<open>\<open>fc.updatePlugins(frame)\<close>. The promise of \<open>fc.initPlugins\<close> is not returned from the
  \<open>then\<close> callback, so its outcome does not reach the result.\<close>

definition updatePlugins :: "collab \<Rightarrow> frame \<Rightarrow> world \<Rightarrow> unit promise \<times> world" where
  "updatePlugins env frame w =
     (let w1 = w\<lparr>events := events w @ [InstallPlugins (frame_plugins frame)]\<rparr>
      in case installPlugins env (frame_plugins frame) of
           Fulfilled u \<Rightarrow>
             (let w2 = w1\<lparr>events := events w1 @ [InitPlugins (frame_plugins frame)]\<rparr>
              in case initPlugins env (frame_plugins frame) of
                   Rejected e \<Rightarrow> (Fulfilled (), w2\<lparr>unhandled := unhandled w2 @ [e]\<rparr>)
                 | _ \<Rightarrow> (Fulfilled (), w2))
         | Rejected e \<Rightarrow> (Rejected e, w1)
         | Pending \<Rightarrow> (Pending, w1))"

text \<open>What follows a fulfilled \<open>Frame_findById\<close> or \<open>create_frames\<close>: store the frame, save
  the configuration, update the plugins and resolve with the frame. The promise of
  \<open>updatePlugins\<close> gets a \<open>then\<close> and no \<open>catch\<close>: when it is rejected the outer promise is
  never settled.\<close>

definition storeFrame :: "collab \<Rightarrow> frame \<Rightarrow> world \<Rightarrow> frame promise \<times> world" where
  "storeFrame env found w =
     (let w1 = w\<lparr>ofrc_frame := Some found, events := events w @ [ConfigSave]\<rparr>
      in case updatePlugins env found w1 of
           (Fulfilled u, w2) \<Rightarrow> (Fulfilled found, w2)
         | (Rejected e, w2) \<Rightarrow> (Pending, w2\<lparr>unhandled := unhandled w2 @ [e]\<rparr>)
         | (Pending, w2) \<Rightarrow> (Pending, w2))"

text \<open>The test \<open>frame && frame.id\<close>: the id when there is a frame with an id that is not
  the empty string.\<close>

definition usable_id :: "frame option \<Rightarrow> string option" where
  "usable_id fo =
     (case fo of
        None \<Rightarrow> None
      | Some frame \<Rightarrow>
         (case frame_id frame of
            None \<Rightarrow> None
          | Some i \<Rightarrow> if i = [] then None else Some i))"

text \<open>\<open>fc.updateFrame()\<close>.\<close>

definition updateFrame :: "collab \<Rightarrow> world \<Rightarrow> frame promise \<times> world" where
  "updateFrame env w =
     (case usable_id (ofrc_frame w) of
        Some i \<Rightarrow>
          (let w1 = w\<lparr>events := events w @ [FindById i]\<rparr>
           in case findById env i of
                Fulfilled found \<Rightarrow> storeFrame env found w1
              | Rejected e \<Rightarrow> (Rejected e, w1)
              | Pending \<Rightarrow> (Pending, w1))
      | None \<Rightarrow> (Rejected Undefined, w))"

definition default_plugins :: "(string \<times> string) list" where
  "default_plugins =
     [(''openframe-pluginexample'',
       ''git+https://git@github.com/OpenframeProject/Openframe-PluginExample.git'')]"

text \<open>\<open>fc.registerNewFrame(userId)\<close>. Reading \<open>frame.name\<close> of \<open>undefined\<close> throws inside the
  promise's executor, which rejects the promise.\<close>

definition registerNewFrame :: "collab \<Rightarrow> string \<Rightarrow> world \<Rightarrow> frame promise \<times> world" where
  "registerNewFrame env userId w =
     (case ofrc_frame w of
        None \<Rightarrow> (Rejected TypeError, w)
      | Some frame \<Rightarrow>
         (let w1 = w\<lparr>events := events w @ [CreateFrames userId (frame_name frame) default_plugins]\<rparr>
          in case create_frames env userId (frame_name frame) of
               Fulfilled created \<Rightarrow> storeFrame env created w1
             | Rejected e \<Rightarrow> (Rejected e, w1)
             | Pending \<Rightarrow> (Pending, w1)))"

text \<open>Modelled from the spec: \<open>pubsub.init\<close> is not among the sources; the pub/sub channel
  is "consumed only as a fire-and-forget event sink", so the call \<open>fc.pubsub = pubsub.init(fc)\<close>
  of \<open>readyToConnect\<close> is an event that returns, and so is \<open>config.save()\<close> above.\<close>

definition readyToConnect :: "world \<Rightarrow> world" where
  "readyToConnect w = w\<lparr>events := events w @ [PubsubInit]\<rparr>"

text \<open>\<open>fc.connect(userId)\<close>: \<open>fc.updateFrame().then(readyToConnect).catch(...)\<close>, the handler
  of the \<open>catch\<close> being \<open>fc.registerNewFrame(userId).then(readyToConnect).catch(reject)\<close>.\<close>

definition connect :: "collab \<Rightarrow> string \<Rightarrow> world \<Rightarrow> unit promise \<times> world" where
  "connect env userId w =
     (case updateFrame env w of
        (Fulfilled found, w1) \<Rightarrow> (Fulfilled (), readyToConnect w1)
      | (Rejected err, w1) \<Rightarrow>
          (case registerNewFrame env userId w1 of
             (Fulfilled created, w2) \<Rightarrow> (Fulfilled (), readyToConnect w2)
           | (Rejected e, w2) \<Rightarrow> (Rejected e, w2)
           | (Pending, w2) \<Rightarrow> (Pending, w2))
      | (Pending, w1) \<Rightarrow> (Pending, w1))"

text \<open>The two remote calls of a connection attempt, as events.\<close>

fun is_lookup :: "event \<Rightarrow> bool" where
  "is_lookup (FindById i) = True"
| "is_lookup ev = False"

fun is_register :: "event \<Rightarrow> bool" where
  "is_register (CreateFrames u n ps) = True"
| "is_register ev = False"

text \<open>A stretch of the trace with neither of the two.\<close>

definition quiet :: "event list \<Rightarrow> bool" where
  "quiet xs = (\<forall>e \<in> set xs. \<not> is_lookup e \<and> \<not> is_register e)"

text \<open>The events an operation added to the trace of the world it started from.\<close>

definition new_events :: "world \<Rightarrow> world \<Rightarrow> event list" where
  "new_events w w' = drop (length (events w)) (events w')"

section \<open>Concrete artworks, frames and collaborators\<close>

text \<open>Stand-ins for \<open>url.parse(u).pathname\<close> and \<open>path.basename\<close> on URLs of the shape
  \<open>scheme://host/dir/file\<close>, used where the theorems below are run on concrete inputs.\<close>

definition simple_pathname :: "string \<Rightarrow> string" where
  "simple_pathname u = CHR ''/'' # join_with (CHR ''/'') (drop 3 (split_on (CHR ''/'') u))"

definition simple_basename :: "string \<Rightarrow> string" where
  "simple_basename p = last (split_on (CHR ''/'') p)"

definition art_site :: artwork where
  "art_site = \<lparr>art_id = ''a1'', art_url = ''http://example.org/index.html'',
     art_format = \<lparr>start_command = ''chromium --kiosk'',
                    end_command = Some ''pkill chromium'', download = False\<rparr>\<rparr>"

definition art_video :: artwork where
  "art_video = \<lparr>art_id = ''a2'', art_url = ''http://example.org/clips/sea.mp4'',
     art_format = \<lparr>start_command = ''omxplayer --loop'',
                    end_command = Some ''pkill omxplayer'', download = False\<rparr>\<rparr>"

definition art_shader :: artwork where
  "art_shader = \<lparr>art_id = ''a3'', art_url = ''http://example.org/shaders/wave.frag'',
     art_format = \<lparr>start_command = ''glslViewer'',
                    end_command = Some ''pkill glslViewer'', download = True\<rparr>\<rparr>"

definition kitchen_frame :: "string option \<Rightarrow> artwork option \<Rightarrow> frame" where
  "kitchen_frame i a =
     \<lparr>frame_id = i, frame_name = ''kitchen'', frame_plugins = [], frame_current_artwork = a\<rparr>"

text \<open>A server that knows no frame and creates one on request, a download that succeeds
  into \<open>/tmp/\<close>, plugins that install.\<close>

definition env_ok :: collab where
  "env_ok =
     \<lparr>url_pathname = simple_pathname, path_basename = simple_basename,
      downloadFile = (\<lambda>u d. Fulfilled (''/tmp/'' @ d)),
      findById = (\<lambda>i. Rejected (Err ''404'')),
      create_frames = (\<lambda>u n. Fulfilled \<lparr>frame_id = Some ''f9'', frame_name = n,
                         frame_plugins = default_plugins, frame_current_artwork = None\<rparr>),
      installPlugins = (\<lambda>ps. Fulfilled ()),
      initPlugins = (\<lambda>ps. Fulfilled ())\<rparr>"

text \<open>The same, with a download that fails and a server that knows the frame \<open>f1\<close>.\<close>

definition env_fetch_fails :: collab where
  "env_fetch_fails = env_ok\<lparr>downloadFile := (\<lambda>u d. Rejected (Err ''ECONNREFUSED''))\<rparr>"

definition env_known :: collab where
  "env_known = env_ok\<lparr>findById := (\<lambda>i. Fulfilled (kitchen_frame (Some i) None))\<rparr>"

text \<open>A frame that shows nothing and has been assigned an artwork, and a frame that
  shows \<open>art_site\<close> (started as process 11) and has been assigned another artwork.\<close>

definition idle_world :: "artwork \<Rightarrow> world" where
  "idle_world a = pm_init\<lparr>ofrc_frame := Some (kitchen_frame (Some ''f1'') (Some a))\<rparr>"

definition showing_world :: "artwork \<Rightarrow> world" where
  "showing_world a =
     (snd (changeArtwork env_ok 11 (idle_world art_site)))
       \<lparr>ofrc_frame := Some (kitchen_frame (Some ''f1'') (Some a))\<rparr>"

text \<open>Two viewers started one after the other from the empty process manager.\<close>

definition two_viewers :: world where
  "two_viewers =
     startProcess ''omxplayer --loop sea.mp4'' 12 (startProcess ''glslViewer wave.frag'' 11 pm_init)"

section \<open>Facts about the process manager\<close>

lemma split_on_nonempty: "split_on sep s \<noteq> []"
  by (cases s) (auto split: list.splits)

lemma indexOf_absent: "x \<notin> set xs \<Longrightarrow> indexOf xs x = - 1"
  by (induction xs) auto

lemma indexOf_nonneg: "x \<in> set xs \<Longrightarrow> 0 \<le> indexOf xs x"
  by (induction xs) (auto simp: Let_def)

lemma indexOf_present: "x \<in> set xs \<Longrightarrow> indexOf xs x \<noteq> - 1"
  using indexOf_nonneg [of x xs] by simp

lemma splice1_indexOf: "x \<in> set xs \<Longrightarrow> splice1 (indexOf xs x) xs = remove1 x xs"
proof (induction xs)
  case Nil
  then show ?case by simp
next
  case (Cons y ys)
  show ?case
  proof (cases "y = x")
    case True
    then show ?thesis by (simp add: splice1_def)
  next
    case False
    with Cons.prems have mem: "x \<in> set ys" by simp
    have nn: "0 \<le> indexOf ys x" using mem by (rule indexOf_nonneg)
    have "nat (indexOf ys x + 1) = Suc (nat (indexOf ys x))" using nn by simp
    with False mem Cons.IH indexOf_present [OF mem] show ?thesis
      by (simp add: splice1_def Let_def)
  qed
qed

lemma killProcess_stack: "processStack (killProcess p thrown w) = remove1 p (processStack w)"
proof (cases "p \<in> set (processStack w)")
  case True
  then show ?thesis
    by (simp add: killProcess_def Let_def indexOf_present splice1_indexOf)
next
  case False
  then show ?thesis
    by (simp add: killProcess_def Let_def indexOf_absent remove1_idem)
qed

lemma killProcess_processes: "processes (killProcess p thrown w) = (processes w)(p := None)"
  by (simp add: killProcess_def Let_def)

lemma killProcess_events:
  "events (killProcess p thrown w) = events w @ [ProcessKill (- p) thrown]"
  by (simp add: killProcess_def Let_def)

lemma startProcess_stack: "processStack (startProcess c n w) = processStack w @ [n]"
  by (simp add: startProcess_def Let_def)

lemma startProcess_dom: "dom (processes (startProcess c n w)) = insert n (dom (processes w))"
  by (simp add: startProcess_def Let_def)


lemma split_on_hd_tl: "hd (split_on sep s) # tl (split_on sep s) = split_on sep s"
  using split_on_nonempty [of sep s] by simp

lemma join_split: "join_with sep (split_on sep s) = s"
proof (induction s)
  case Nil
  then show ?case by simp
next
  case (Cons c cs)
  obtain t ts where sp: "split_on sep cs = t # ts"
    using split_on_nonempty [of sep cs] by (cases "split_on sep cs") auto
  with Cons show ?case by (cases ts) auto
qed

lemma split_tokens_free: "t \<in> set (split_on sep s) \<Longrightarrow> sep \<notin> set t"
proof (induction s arbitrary: t)
  case Nil
  then show ?case by simp
next
  case (Cons c cs)
  obtain u us where sp: "split_on sep cs = u # us"
    using split_on_nonempty [of sep cs] by (cases "split_on sep cs") auto
  with Cons show ?case by (auto split: if_splits)
qed

lemma split_free: "sep \<notin> set t \<Longrightarrow> split_on sep (t @ sep # s) = t # split_on sep s"
  by (induction t) auto

lemma split_free_last: "sep \<notin> set t \<Longrightarrow> split_on sep t = [t]"
  by (induction t) auto

lemma split_join: "ts \<noteq> [] \<Longrightarrow> \<forall>t\<in>set ts. sep \<notin> set t \<Longrightarrow> split_on sep (join_with sep ts) = ts"
proof (induction sep ts rule: join_with.induct)
  case (1 sep)
  then show ?case by simp
next
  case (2 sep t)
  then show ?case by (simp add: split_free_last)
next
  case (3 sep t v va)
  then show ?case by (simp add: split_free)
qed

lemma startProcess_events:
  "events (startProcess c n w) =
     events w @ [Spawn (hd (split_on (CHR '' '') c)) (tl (split_on (CHR '' '') c))]"
  by (simp add: startProcess_def Let_def drop_Suc)

lemma startProcess_processes:
  "processes (startProcess c n w) =
     (processes w)(n \<mapsto> \<lparr>child_pid = n, spawnfile = hd (split_on (CHR '' '') c),
                            spawnargs = tl (split_on (CHR '' '') c)\<rparr>)"
  by (simp add: startProcess_def Let_def drop_Suc)

lemma pm_exec_frame:
  "processes (pm_exec c k w) = processes w \<and> processStack (pm_exec c k w) = processStack w"
  by (simp add: pm_exec_def)

lemma killCurrentProcess_cases:
  "killCurrentProcess thrown w = w \<or>
   (\<exists>p. getCurrentProcess w = Some p \<and> killCurrentProcess thrown w = killProcess p thrown w)"
  by (simp add: killCurrentProcess_def split: option.splits)

lemma tracked_ok_kill: "tracked_ok w \<Longrightarrow> tracked_ok (killProcess p thrown w)"
  by (auto simp: tracked_ok_def killProcess_stack killProcess_processes)

lemma tracked_ok_apply:
  "tracked_ok w \<Longrightarrow> fresh_starts (op # ops) w \<Longrightarrow> tracked_ok (apply_op op w)"
proof (cases op)
  case (Start c n)
  assume "tracked_ok w" "fresh_starts (op # ops) w"
  with Start show ?thesis
    by (auto simp: tracked_ok_def startProcess_stack startProcess_dom)
next
  case (Kill p thrown)
  assume "tracked_ok w"
  with Kill show ?thesis by (simp add: tracked_ok_kill)
next
  case (KillCurrent thrown)
  assume "tracked_ok w"
  with KillCurrent killCurrentProcess_cases [of thrown w] show ?thesis
    by (auto simp: tracked_ok_kill)
next
  case (ExecCmd c)
  assume "tracked_ok w"
  with ExecCmd show ?thesis by (simp add: tracked_ok_def pm_exec_def)
qed

lemma fresh_starts_tail: "fresh_starts (op # ops) w \<Longrightarrow> fresh_starts ops (apply_op op w)"
  by (cases op) auto

lemma tracked_ok_run: "tracked_ok w \<Longrightarrow> fresh_starts ops w \<Longrightarrow> tracked_ok (run_ops ops w)"
proof (induction ops arbitrary: w)
  case Nil
  then show ?case by simp
next
  case (Cons op ops)
  from Cons.prems have "tracked_ok (apply_op op w)" by (rule tracked_ok_apply)
  moreover from Cons.prems(2) have "fresh_starts ops (apply_op op w)" by (rule fresh_starts_tail)
  ultimately show ?case using Cons.IH by simp
qed

lemma mapped_in_stack_kill:
  "dom (processes w) \<subseteq> set (processStack w) \<Longrightarrow>
   dom (processes (killProcess p thrown w)) \<subseteq> set (processStack (killProcess p thrown w))"
proof
  fix x
  assume sub: "dom (processes w) \<subseteq> set (processStack w)"
    and x: "x \<in> dom (processes (killProcess p thrown w))"
  from x have "x \<noteq> p" and "x \<in> dom (processes w)"
    by (auto simp: killProcess_processes split: if_splits)
  with sub have "x \<in> set (remove1 p (processStack w))"
    by (auto simp: in_set_remove1)
  then show "x \<in> set (processStack (killProcess p thrown w))"
    by (simp add: killProcess_stack)
qed

lemma mapped_in_stack_apply:
  "dom (processes w) \<subseteq> set (processStack w) \<Longrightarrow>
   dom (processes (apply_op op w)) \<subseteq> set (processStack (apply_op op w))"
proof (cases op)
  case (Start c n)
  assume "dom (processes w) \<subseteq> set (processStack w)"
  with Start show ?thesis by (auto simp: startProcess_stack startProcess_dom)
next
  case (Kill p thrown)
  assume "dom (processes w) \<subseteq> set (processStack w)"
  with Kill show ?thesis using mapped_in_stack_kill [of w p thrown] by simp
next
  case (KillCurrent thrown)
  assume a: "dom (processes w) \<subseteq> set (processStack w)"
  from killCurrentProcess_cases [of thrown w] show ?thesis
  proof
    assume "killCurrentProcess thrown w = w"
    with a KillCurrent show ?thesis by simp
  next
    assume "\<exists>p. getCurrentProcess w = Some p \<and> killCurrentProcess thrown w = killProcess p thrown w"
    then obtain p where "killCurrentProcess thrown w = killProcess p thrown w" by blast
    with KillCurrent mapped_in_stack_kill [OF a, of p thrown] show ?thesis by simp
  qed
next
  case (ExecCmd c)
  assume "dom (processes w) \<subseteq> set (processStack w)"
  with ExecCmd show ?thesis by (simp add: pm_exec_def)
qed

lemma mapped_in_stack_run:
  "dom (processes w) \<subseteq> set (processStack w) \<Longrightarrow>
   dom (processes (run_ops ops w)) \<subseteq> set (processStack (run_ops ops w))"
proof (induction ops arbitrary: w)
  case Nil
  then show ?case by simp
next
  case (Cons op ops)
  from Cons.prems have "dom (processes (apply_op op w)) \<subseteq> set (processStack (apply_op op w))"
    by (rule mapped_in_stack_apply)
  then show ?case using Cons.IH by simp
qed

text \<open>What \<open>remove1\<close> leaves of the element it removes.\<close>

lemma in_remove1_count: "p \<in> set (remove1 p xs) \<longleftrightarrow> 1 < count_list xs p"
proof (induction xs)
  case Nil
  then show ?case by simp
next
  case (Cons y ys)
  show ?case
  proof (cases "y = p")
    case True
    have "p \<in> set ys \<longleftrightarrow> 0 < count_list ys p"
      using count_list_0_iff [of ys p] by auto
    with True show ?thesis by simp
  next
    case False
    with Cons show ?thesis by simp
  qed
qed

section \<open>The process manager: claims\<close>

text \<open>
  Claim C2. After \<open>start(c1)\<close> and then \<open>start(c2)\<close> with no kill in between,
  \<open>getCurrent()\<close> is the pid of the process spawned for \<open>c1\<close>: \<open>startProcess\<close> appends the
  new pid to the end of \<open>processStack\<close>, and \<open>getCurrentProcess\<close> reads element 0. From the
  empty process manager the answer is the first pid; from any other state it is the head
  the sequence already had.
\<close>

theorem getCurrent_first_started:
  "getCurrentProcess (startProcess c2 p2 (startProcess c1 p1 pm_init)) = Some p1
   \<and> getCurrentProcess (startProcess c2 p2 (startProcess c1 p1 w)) =
       (case processStack w of [] \<Rightarrow> Some p1 | p # ps \<Rightarrow> Some p)
   \<and> processStack (startProcess c p w) = processStack w @ [p]
   \<and> getCurrentProcess w = (case processStack w of [] \<Rightarrow> None | p # ps \<Rightarrow> Some p)"
  by (simp add: getCurrentProcess_def startProcess_stack pm_init_def split: list.splits)

text \<open>
  Claim C7, as amended. For a pid that has no entry in \<open>processes\<close> and does not occur in
  \<open>processStack\<close>, \<open>killProcess\<close> changes neither, nor the controller's state; it returns a
  world in every case, whatever \<open>process.kill\<close> threw, since the \<open>catch\<close> keeps the error.
  In general it deletes the entry of the pid and takes its first occurrence out of the
  sequence (\<open>indexOf\<close>, then \<open>splice(idx, 1)\<close>), with the same result whether the signal
  was delivered or not. The pid is still in the sequence afterwards exactly when it
  occurred there more than once. When it occurred at most once, it is afterwards in
  neither the mapping nor the sequence, and killing it again changes neither.
\<close>

theorem kill_removes_first_occurrence:
  "(processes w p = None \<and> p \<notin> set (processStack w) \<longrightarrow>
      processes (killProcess p thrown w) = processes w
      \<and> processStack (killProcess p thrown w) = processStack w
      \<and> ofrc_frame (killProcess p thrown w) = ofrc_frame w
      \<and> fc_current_artwork (killProcess p thrown w) = fc_current_artwork w
      \<and> unhandled (killProcess p thrown w) = unhandled w)
   \<and> processes (killProcess p thrown w) = (processes w)(p := None)
   \<and> processStack (killProcess p thrown w) = remove1 p (processStack w)
   \<and> processes (killProcess p (Some e) w) = processes (killProcess p None w)
   \<and> processStack (killProcess p (Some e) w) = processStack (killProcess p None w)
   \<and> (p \<in> set (processStack (killProcess p thrown w)) \<longleftrightarrow> 1 < count_list (processStack w) p)
   \<and> (count_list (processStack w) p \<le> 1 \<longrightarrow>
        processes (killProcess p thrown w) p = None
        \<and> p \<notin> set (processStack (killProcess p thrown w))
        \<and> processes (killProcess p thrown' (killProcess p thrown w)) =
            processes (killProcess p thrown w)
        \<and> processStack (killProcess p thrown' (killProcess p thrown w)) =
            processStack (killProcess p thrown w))"
proof -
  have other: "ofrc_frame (killProcess p thrown w) = ofrc_frame w
      \<and> fc_current_artwork (killProcess p thrown w) = fc_current_artwork w
      \<and> unhandled (killProcess p thrown w) = unhandled w"
    by (simp add: killProcess_def Let_def)
  have noop: "processes w p = None \<Longrightarrow> (processes w)(p := None) = processes w"
    by (rule ext) simp
  have gone: "count_list (processStack w) p \<le> 1 \<Longrightarrow> p \<notin> set (remove1 p (processStack w))"
    using in_remove1_count [of p "processStack w"] by simp
  show ?thesis
    using other noop gone
    by (simp add: killProcess_processes killProcess_stack remove1_idem in_remove1_count)
qed

text \<open>The theorem at pid 99, which \<open>two_viewers\<close> does not track, with a signal that fails;
  and at pid 11, which it tracks once, killed a second time when the process is gone.\<close>

theorem kill_removes_first_occurrence_witness:
  "processes two_viewers 99 = None \<and> 99 \<notin> set (processStack two_viewers)
   \<and> processStack (killProcess 99 (Some (Err ''ESRCH'')) two_viewers) = [11, 12]
   \<and> processes (killProcess 99 (Some (Err ''ESRCH'')) two_viewers) = processes two_viewers
   \<and> count_list (processStack two_viewers) 11 \<le> 1
   \<and> 11 \<notin> set (processStack (killProcess 11 None two_viewers))
   \<and> processStack (killProcess 11 None two_viewers) = [12]
   \<and> processes (killProcess 11 None two_viewers) 11 = None
   \<and> processStack (killProcess 11 (Some (Err ''ESRCH'')) (killProcess 11 None two_viewers)) = [12]"
  using kill_removes_first_occurrence
      [of two_viewers 99 "Some (Err ''ESRCH'')" "Err ''ESRCH''" None]
    kill_removes_first_occurrence
      [of two_viewers 11 None "Err ''ESRCH''" "Some (Err ''ESRCH'')"]
  by (simp add: two_viewers_def startProcess_def pm_init_def Let_def
      killProcess_processes killProcess_stack)

text \<open>The claim as written, that the kill removes the pid from the active sequence and
  that a repeated kill changes nothing, fails when the sequence holds the pid twice, as
  after two starts that \<open>spawn\<close> answered with the same pid: the first kill leaves one
  occurrence, and the second kill removes it.\<close>

theorem kill_removes_pid_counterexample:
  "processStack (run_ops [Start ''viewer'' 7, Start ''viewer'' 7] pm_init) = [7, 7]
   \<and> processStack (killProcess 7 None (run_ops [Start ''viewer'' 7, Start ''viewer'' 7] pm_init)) = [7]
   \<and> (7::int) \<in> set (processStack
         (killProcess 7 None (run_ops [Start ''viewer'' 7, Start ''viewer'' 7] pm_init)))
   \<and> processStack (killProcess 7 None
         (killProcess 7 None (run_ops [Start ''viewer'' 7, Start ''viewer'' 7] pm_init))) = []
   \<and> processStack (killProcess 7 None
         (killProcess 7 None (run_ops [Start ''viewer'' 7, Start ''viewer'' 7] pm_init)))
       \<noteq> processStack
         (killProcess 7 None (run_ops [Start ''viewer'' 7, Start ''viewer'' 7] pm_init))"
  by (simp add: startProcess_def killProcess_def pm_init_def Let_def splice1_def)

text \<open>
  Claim C10. \<open>killProcess(p)\<close> leaves the entry of every other pid \<open>q\<close> as it was and keeps
  the other pids of the active sequence in their order: the sequence without \<open>p\<close> is the
  same before and after. It removes the one entry of \<open>p\<close> from the mapping, and at most one
  element, an occurrence of \<open>p\<close>, from the sequence.
\<close>

theorem kill_leaves_others:
  "q \<noteq> p \<Longrightarrow>
     processes (killProcess p thrown w) q = processes w q
     \<and> filter (\<lambda>x. x \<noteq> p) (processStack (killProcess p thrown w)) =
         filter (\<lambda>x. x \<noteq> p) (processStack w)
     \<and> (q \<in> set (processStack (killProcess p thrown w)) \<longleftrightarrow> q \<in> set (processStack w))
     \<and> dom (processes (killProcess p thrown w)) = dom (processes w) - {p}
     \<and> processStack (killProcess p thrown w) = remove1 p (processStack w)
     \<and> length (processStack w) \<le> Suc (length (processStack (killProcess p thrown w)))"
proof -
  assume ne: "q \<noteq> p"
  have f: "filter (\<lambda>x. x \<noteq> p) (remove1 p xs) = filter (\<lambda>x. x \<noteq> p) xs" for xs :: "pid list"
    by (induction xs) auto
  have l: "length xs \<le> Suc (length (remove1 p xs))" for xs :: "pid list"
    by (induction xs) auto
  show ?thesis
    using ne f l by (auto simp: killProcess_processes killProcess_stack)
qed

text \<open>The theorem at \<open>two_viewers\<close>: killing process 11 leaves process 12 tracked.\<close>

theorem kill_leaves_others_witness:
  "(12::int) \<noteq> 11
   \<and> processes (killProcess 11 None two_viewers) 12 = processes two_viewers 12
   \<and> processes two_viewers 12 =
       Some \<lparr>child_pid = 12, spawnfile = ''omxplayer'', spawnargs = [''--loop'', ''sea.mp4'']\<rparr>
   \<and> processStack (killProcess 11 None two_viewers) = [12]
   \<and> processes (killProcess 11 None two_viewers) 11 = None"
  using kill_leaves_others [of 12 11 None two_viewers]
  by (simp add: two_viewers_def startProcess_def pm_init_def Let_def
      killProcess_processes killProcess_stack)

text \<open>
  Claim C8, as amended. In every state reached from the empty process manager by
  \<open>startProcess\<close>, \<open>killProcess\<close>, \<open>killCurrentProcess\<close> and \<open>exec\<close>, every pid with an entry
  in the mapping occurs in the active sequence. When every \<open>startProcess\<close> of the run
  receives a pid that the active sequence does not hold at that moment, a pid occurs in
  the active sequence exactly when it has an entry in the mapping, and occurs there once.
  \<open>exec\<close> changes neither the mapping nor the sequence, and \<open>killCurrentProcess\<close> changes
  them only as \<open>killProcess\<close> of the head of the sequence does.
\<close>

theorem tracked_iff_mapped_when_fresh:
  "(processes (run_ops ops pm_init) p \<noteq> None \<longrightarrow> p \<in> set (processStack (run_ops ops pm_init)))
   \<and> (fresh_starts ops pm_init \<longrightarrow>
        (p \<in> set (processStack (run_ops ops pm_init)) \<longleftrightarrow> processes (run_ops ops pm_init) p \<noteq> None)
        \<and> distinct (processStack (run_ops ops pm_init)))
   \<and> processes (pm_exec c k w) = processes w
   \<and> processStack (pm_exec c k w) = processStack w
   \<and> (killCurrentProcess thrown w = w \<or>
        (\<exists>q. getCurrentProcess w = Some q \<and> killCurrentProcess thrown w = killProcess q thrown w))"
proof -
  have init_sub: "dom (processes pm_init) \<subseteq> set (processStack pm_init)"
    by (simp add: pm_init_def)
  have init_ok: "tracked_ok pm_init"
    by (simp add: tracked_ok_def pm_init_def)
  have a: "processes (run_ops ops pm_init) p \<noteq> None \<longrightarrow> p \<in> set (processStack (run_ops ops pm_init))"
    using mapped_in_stack_run [OF init_sub, of ops] by auto
  have b: "fresh_starts ops pm_init \<longrightarrow>
        (p \<in> set (processStack (run_ops ops pm_init)) \<longleftrightarrow> processes (run_ops ops pm_init) p \<noteq> None)
        \<and> distinct (processStack (run_ops ops pm_init))"
    using tracked_ok_run [OF init_ok, of ops] by (auto simp: tracked_ok_def)
  show ?thesis
    using a b pm_exec_frame [of c k w] killCurrentProcess_cases [of thrown w] by blast
qed

text \<open>The claim as written fails when \<open>spawn\<close> answers twice with the same pid, as it
  may once the first process has exited (the module keeps the pids of exited processes):
  after one kill the pid is still in the active sequence and has no entry.\<close>

theorem tracked_iff_mapped_counterexample:
  "\<not> ((7::int) \<in> set (processStack (run_ops [Start ''viewer'' 7, Start ''viewer'' 7, Kill 7 None] pm_init))
       \<longleftrightarrow> processes (run_ops [Start ''viewer'' 7, Start ''viewer'' 7, Kill 7 None] pm_init) 7 \<noteq> None)"
  by (simp add: startProcess_def killProcess_def pm_init_def Let_def splice1_def)

text \<open>The theorem on a run in which pid 11 is given out again after it was killed.\<close>

theorem tracked_iff_mapped_witness:
  "fresh_starts [Start ''glslViewer wave.frag'' 11, Start ''omxplayer sea.mp4'' 12, Kill 11 None,
       ExecCmd (Some ''pkill omxplayer''), KillCurrent None, Start ''chromium'' 11] pm_init
   \<and> processStack (run_ops [Start ''glslViewer wave.frag'' 11, Start ''omxplayer sea.mp4'' 12, Kill 11 None,
       ExecCmd (Some ''pkill omxplayer''), KillCurrent None, Start ''chromium'' 11] pm_init) = [11]
   \<and> processes (run_ops [Start ''glslViewer wave.frag'' 11, Start ''omxplayer sea.mp4'' 12, Kill 11 None,
       ExecCmd (Some ''pkill omxplayer''), KillCurrent None, Start ''chromium'' 11] pm_init) 11 \<noteq> None
   \<and> 11 \<in> set (processStack (run_ops [Start ''glslViewer wave.frag'' 11, Start ''omxplayer sea.mp4'' 12, Kill 11 None,
       ExecCmd (Some ''pkill omxplayer''), KillCurrent None, Start ''chromium'' 11] pm_init))
   \<and> processes (run_ops [Start ''glslViewer wave.frag'' 11, Start ''omxplayer sea.mp4'' 12, Kill 11 None,
       ExecCmd (Some ''pkill omxplayer''), KillCurrent None, Start ''chromium'' 11] pm_init) 12 = None
   \<and> 12 \<notin> set (processStack (run_ops [Start ''glslViewer wave.frag'' 11, Start ''omxplayer sea.mp4'' 12, Kill 11 None,
       ExecCmd (Some ''pkill omxplayer''), KillCurrent None, Start ''chromium'' 11] pm_init))"
  using tracked_iff_mapped_when_fresh [of "[Start ''glslViewer wave.frag'' 11, Start ''omxplayer sea.mp4'' 12, Kill 11 None,
       ExecCmd (Some ''pkill omxplayer''), KillCurrent None, Start ''chromium'' 11]" 11]
    tracked_iff_mapped_when_fresh [of "[Start ''glslViewer wave.frag'' 11, Start ''omxplayer sea.mp4'' 12, Kill 11 None,
       ExecCmd (Some ''pkill omxplayer''), KillCurrent None, Start ''chromium'' 11]" 12]
  by (simp add: startProcess_def killProcess_def killCurrentProcess_def getCurrentProcess_def
      pm_exec_def pm_init_def Let_def splice1_def)

text \<open>
  Claim C9, as amended. \<open>startProcess\<close> cuts the command at every space character
  (\<open>command.split(' ')\<close>): the first token is the binary, the others are the arguments,
  and \<open>spawn\<close> is called with exactly these. The tokens hold no space, and joined by single
  spaces they give the command back, character for character: nothing is unquoted,
  unescaped or expanded, and these two facts determine the tokens. Other whitespace does
  not end a token, and two spaces in a row give an empty token.
\<close>

theorem start_splits_at_each_space:
  "events (startProcess c n w) =
     events w @ [Spawn (hd (split_on (CHR '' '') c)) (tl (split_on (CHR '' '') c))]
   \<and> processes (startProcess c n w) n =
       Some \<lparr>child_pid = n, spawnfile = hd (split_on (CHR '' '') c),
              spawnargs = tl (split_on (CHR '' '') c)\<rparr>
   \<and> hd (split_on (CHR '' '') c) # tl (split_on (CHR '' '') c) = split_on (CHR '' '') c
   \<and> join_with (CHR '' '') (split_on (CHR '' '') c) = c
   \<and> (\<forall>t \<in> set (split_on (CHR '' '') c). CHR '' '' \<notin> set t)
   \<and> (\<forall>ts. ts \<noteq> [] \<and> (\<forall>t \<in> set ts. CHR '' '' \<notin> set t) \<and> join_with (CHR '' '') ts = c
         \<longrightarrow> ts = split_on (CHR '' '') c)"
proof -
  have uniq: "\<forall>ts. ts \<noteq> [] \<and> (\<forall>t \<in> set ts. CHR '' '' \<notin> set t) \<and> join_with (CHR '' '') ts = c
         \<longrightarrow> ts = split_on (CHR '' '') c"
    using split_join [of _ "CHR '' ''"] by auto
  have free: "\<forall>t \<in> set (split_on (CHR '' '') c). CHR '' '' \<notin> set t"
    using split_tokens_free [of _ "CHR '' ''" c] by blast
  show ?thesis
    using uniq free
    by (simp add: startProcess_events startProcess_processes split_on_hd_tl join_split)
qed

text \<open>The theorem at a command with two spaces in a row: the player gets an empty first
  argument.\<close>

theorem start_splits_at_each_space_witness:
  "events (startProcess ''omxplayer  --loop sea.mp4'' 11 pm_init) =
     [Spawn ''omxplayer'' ['''', ''--loop'', ''sea.mp4'']]
   \<and> join_with (CHR '' '') [''omxplayer'', '''', ''--loop'', ''sea.mp4''] =
       ''omxplayer  --loop sea.mp4''
   \<and> split_on (CHR '' '') ''omxplayer  --loop sea.mp4'' =
       [''omxplayer'', '''', ''--loop'', ''sea.mp4'']"
  using start_splits_at_each_space [of "''omxplayer  --loop sea.mp4''" 11 pm_init]
  by (simp add: pm_init_def)

text \<open>The claim as written, that the command is split on whitespace, fails at a command
  with a tab: the whole string is the binary and there is no argument, where splitting on
  whitespace gives the binary \<open>ls\<close> and the argument \<open>-l\<close>.\<close>

theorem start_splits_on_whitespace_counterexample:
  "events (startProcess (''ls'' @ [CHR 0x09] @ ''-l'') 11 pm_init) =
     [Spawn (''ls'' @ [CHR 0x09] @ ''-l'') []]
   \<and> spec_split_whitespace (''ls'' @ [CHR 0x09] @ ''-l'') = [''ls'', ''-l'']
   \<and> events (startProcess (''ls'' @ [CHR 0x09] @ ''-l'') 11 pm_init) \<noteq>
       [Spawn (hd (spec_split_whitespace (''ls'' @ [CHR 0x09] @ ''-l'')))
              (tl (spec_split_whitespace (''ls'' @ [CHR 0x09] @ ''-l'')))]"
  by (simp add: startProcess_def pm_init_def Let_def is_whitespace_def)

section \<open>Facts about the controller\<close>

lemma new_events_append: "events w' = events w @ xs \<Longrightarrow> new_events w w' = xs"
  by (simp add: new_events_def)

lemma startArt_showing:
  "startArt (Some cur) a n c w = w\<lparr>events := events w @ [Exec (end_command (art_format cur))]\<rparr>"
  by (simp add: startArt_def pm_exec_def)

lemma startArt_idle:
  "startArt None a n c w = (startProcess c n w)\<lparr>fc_current_artwork := Some a\<rparr>"
  by (simp add: startArt_def)

lemma startArt_events:
  "events (startArt cur a n c w) =
     events w @ (case cur of
                   None \<Rightarrow> [Spawn (hd (split_on (CHR '' '') c)) (tl (split_on (CHR '' '') c))]
                 | Some shown \<Rightarrow> [Exec (end_command (art_format shown))])"
  by (cases cur) (simp_all add: startArt_showing startArt_idle startProcess_events)

lemma updatePlugins_shape:
  "\<exists>xs. events (snd (updatePlugins env f w)) = events w @ xs \<and> quiet xs"
  by (auto simp: updatePlugins_def Let_def quiet_def split: promise.splits)

lemma storeFrame_shape:
  "\<exists>xs. events (snd (storeFrame env f w)) = events w @ xs \<and> quiet xs"
proof -
  let ?w1 = "w\<lparr>ofrc_frame := Some f, events := events w @ [ConfigSave]\<rparr>"
  obtain xs where xs: "events (snd (updatePlugins env f ?w1)) = events ?w1 @ xs" "quiet xs"
    using updatePlugins_shape [of env f ?w1] by blast
  obtain r w2 where up: "updatePlugins env f ?w1 = (r, w2)" by (cases "updatePlugins env f ?w1")
  with xs have "events w2 = events w @ ConfigSave # xs" by simp
  moreover have "quiet (ConfigSave # xs)" using xs(2) by (simp add: quiet_def)
  ultimately show ?thesis
    using up by (cases r) (auto simp: storeFrame_def Let_def)
qed


lemma usable_id_frame: "usable_id fo = Some i \<Longrightarrow> \<exists>f. fo = Some f"
  by (cases fo) (simp_all add: usable_id_def)

text \<open>The frame in the configuration is replaced only when a remote call is fulfilled.\<close>

lemma updateFrame_shape:
  "(usable_id (ofrc_frame w) = None \<and> updateFrame env w = (Rejected Undefined, w))
   \<or> (\<exists>i found xs. usable_id (ofrc_frame w) = Some i \<and> findById env i = Fulfilled found
         \<and> (\<forall>e. fst (updateFrame env w) \<noteq> Rejected e)
         \<and> events (snd (updateFrame env w)) = events w @ FindById i # xs \<and> quiet xs)
   \<or> (\<exists>i e. usable_id (ofrc_frame w) = Some i \<and> findById env i = Rejected e
         \<and> updateFrame env w = (Rejected e, w\<lparr>events := events w @ [FindById i]\<rparr>))
   \<or> (\<exists>i. usable_id (ofrc_frame w) = Some i \<and> findById env i = Pending
         \<and> updateFrame env w = (Pending, w\<lparr>events := events w @ [FindById i]\<rparr>))"
proof (cases "usable_id (ofrc_frame w)")
  case None
  then show ?thesis by (simp add: updateFrame_def)
next
  case (Some i)
  let ?w1 = "w\<lparr>events := events w @ [FindById i]\<rparr>"
  show ?thesis
  proof (cases "findById env i")
    case (Fulfilled found)
    obtain xs where xs: "events (snd (storeFrame env found ?w1)) = events ?w1 @ xs" "quiet xs"
      using storeFrame_shape [of env found ?w1] by blast
    have uf: "updateFrame env w = storeFrame env found ?w1"
      using Some Fulfilled by (simp add: updateFrame_def Let_def)
    have nr: "\<forall>e. fst (storeFrame env found ?w1) \<noteq> Rejected e"
      by (auto simp: storeFrame_def Let_def split: prod.splits promise.splits)
    from xs uf nr Some Fulfilled show ?thesis by simp
  next
    case (Rejected e)
    with Some show ?thesis by (simp add: updateFrame_def Let_def)
  next
    case Pending
    with Some show ?thesis by (simp add: updateFrame_def Let_def)
  qed
qed

lemma registerNewFrame_shape:
  "(ofrc_frame w = None \<and> registerNewFrame env u w = (Rejected TypeError, w))
   \<or> (\<exists>f xs. ofrc_frame w = Some f
        \<and> events (snd (registerNewFrame env u w)) =
            events w @ CreateFrames u (frame_name f) default_plugins # xs \<and> quiet xs)"
proof (cases "ofrc_frame w")
  case None
  then show ?thesis by (simp add: registerNewFrame_def)
next
  case (Some f)
  let ?w1 = "w\<lparr>events := events w @ [CreateFrames u (frame_name f) default_plugins]\<rparr>"
  show ?thesis
  proof (cases "create_frames env u (frame_name f)")
    case (Fulfilled created)
    obtain xs where xs: "events (snd (storeFrame env created ?w1)) = events ?w1 @ xs" "quiet xs"
      using storeFrame_shape [of env created ?w1] by blast
    have "registerNewFrame env u w = storeFrame env created ?w1"
      using Some Fulfilled by (simp add: registerNewFrame_def Let_def)
    with xs Some show ?thesis by simp
  next
    case (Rejected e)
    with Some show ?thesis by (simp add: registerNewFrame_def Let_def quiet_def)
  next
    case Pending
    with Some show ?thesis by (simp add: registerNewFrame_def Let_def quiet_def)
  qed
qed

lemma connect_after_register:
  "\<exists>ys. events (snd (case registerNewFrame env u w1 of
             (Fulfilled created, w2) \<Rightarrow> (Fulfilled (), readyToConnect w2)
           | (Rejected e, w2) \<Rightarrow> (Rejected e, w2)
           | (Pending, w2) \<Rightarrow> (Pending, w2)))
        = events (snd (registerNewFrame env u w1)) @ ys \<and> quiet ys"
  by (cases "registerNewFrame env u w1"; cases "fst (registerNewFrame env u w1)")
     (auto simp: readyToConnect_def quiet_def)

lemma connect_shape:
  "(ofrc_frame w = None \<and> new_events w (snd (connect env u w)) = [])
   \<or> (\<exists>f xs. usable_id (ofrc_frame w) = None \<and> ofrc_frame w = Some f
         \<and> new_events w (snd (connect env u w)) =
             CreateFrames u (frame_name f) default_plugins # xs \<and> quiet xs)
   \<or> (\<exists>i found xs. usable_id (ofrc_frame w) = Some i \<and> findById env i = Fulfilled found
         \<and> new_events w (snd (connect env u w)) = FindById i # xs \<and> quiet xs)
   \<or> (\<exists>i e f xs. usable_id (ofrc_frame w) = Some i \<and> findById env i = Rejected e
         \<and> ofrc_frame w = Some f
         \<and> new_events w (snd (connect env u w)) =
             FindById i # CreateFrames u (frame_name f) default_plugins # xs \<and> quiet xs)
   \<or> (\<exists>i. usable_id (ofrc_frame w) = Some i \<and> findById env i = Pending
         \<and> new_events w (snd (connect env u w)) = [FindById i])"
  using updateFrame_shape [of w env]
proof (elim disjE exE conjE)
  assume none: "usable_id (ofrc_frame w) = None" and uf: "updateFrame env w = (Rejected Undefined, w)"
  obtain ys where ys: "events (snd (connect env u w)) = events (snd (registerNewFrame env u w)) @ ys"
      "quiet ys"
    using connect_after_register [of env u w] uf by (auto simp: connect_def)
  from registerNewFrame_shape [of w env u] show ?thesis
  proof (elim disjE exE conjE)
    assume "ofrc_frame w = None" "registerNewFrame env u w = (Rejected TypeError, w)"
    with uf show ?thesis by (simp add: connect_def new_events_def)
  next
    fix f xs
    assume f: "ofrc_frame w = Some f"
      and ev: "events (snd (registerNewFrame env u w)) =
            events w @ CreateFrames u (frame_name f) default_plugins # xs"
      and q: "quiet xs"
    from ys ev have "new_events w (snd (connect env u w)) =
        CreateFrames u (frame_name f) default_plugins # (xs @ ys)"
      by (simp add: new_events_def)
    moreover have "quiet (xs @ ys)" using q ys(2) by (auto simp: quiet_def)
    ultimately show ?thesis using none f by blast
  qed
next
  fix i found xs
  assume i: "usable_id (ofrc_frame w) = Some i" and fb: "findById env i = Fulfilled found"
    and nr: "\<forall>e. fst (updateFrame env w) \<noteq> Rejected e"
    and ev: "events (snd (updateFrame env w)) = events w @ FindById i # xs" and q: "quiet xs"
  obtain r w1 where uf: "updateFrame env w = (r, w1)" by (cases "updateFrame env w")
  have "\<exists>ys. events (snd (connect env u w)) = events w1 @ ys \<and> quiet ys"
    using uf nr by (cases r) (auto simp: connect_def readyToConnect_def quiet_def)
  then obtain ys where ys: "events (snd (connect env u w)) = events w1 @ ys" "quiet ys" by blast
  with ev uf have "new_events w (snd (connect env u w)) = FindById i # (xs @ ys)"
    by (simp add: new_events_def)
  moreover have "quiet (xs @ ys)" using q ys(2) by (auto simp: quiet_def)
  ultimately show ?thesis using i fb by blast
next
  fix i e
  assume i: "usable_id (ofrc_frame w) = Some i" and fb: "findById env i = Rejected e"
    and uf: "updateFrame env w = (Rejected e, w\<lparr>events := events w @ [FindById i]\<rparr>)"
  let ?w1 = "w\<lparr>events := events w @ [FindById i]\<rparr>"
  obtain f where f: "ofrc_frame w = Some f" using usable_id_frame [OF i] by blast
  obtain ys where ys: "events (snd (connect env u w)) = events (snd (registerNewFrame env u ?w1)) @ ys"
      "quiet ys"
    using connect_after_register [of env u ?w1] uf by (auto simp: connect_def)
  from registerNewFrame_shape [of ?w1 env u] f
  obtain xs where ev: "events (snd (registerNewFrame env u ?w1)) =
        events ?w1 @ CreateFrames u (frame_name f) default_plugins # xs" and q: "quiet xs"
    by auto
  from ys ev have "new_events w (snd (connect env u w)) =
        FindById i # CreateFrames u (frame_name f) default_plugins # (xs @ ys)"
    by (simp add: new_events_def)
  moreover have "quiet (xs @ ys)" using q ys(2) by (auto simp: quiet_def)
  ultimately show ?thesis using i fb f by blast
next
  fix i
  assume i: "usable_id (ofrc_frame w) = Some i" and fb: "findById env i = Pending"
    and uf: "updateFrame env w = (Pending, w\<lparr>events := events w @ [FindById i]\<rparr>)"
  then show ?thesis by (simp add: connect_def new_events_def)
qed

lemma quiet_dropWhile: "quiet xs \<Longrightarrow> dropWhile (\<lambda>e. \<not> is_register e) xs = []"
  by (induction xs) (auto simp: quiet_def)

text \<open>The definitions to unfold when a statement is run on the concrete inputs.\<close>

lemmas example_defs = idle_world_def showing_world_def kitchen_frame_def art_site_def
  art_video_def art_shader_def env_ok_def env_fetch_fails_def env_known_def pm_init_def
  simple_pathname_def simple_basename_def default_plugins_def

lemmas controller_defs = changeArtwork_def startArt_def startProcess_def pm_exec_def
  connect_def updateFrame_def registerNewFrame_def storeFrame_def updatePlugins_def
  readyToConnect_def usable_id_def new_events_def Let_def

lemma changeArtwork_showing:
  "ofrc_frame w = Some f \<Longrightarrow> frame_current_artwork f = Some a \<Longrightarrow>
   fc_current_artwork w = Some cur \<Longrightarrow> \<not> download (art_format a) \<Longrightarrow>
   changeArtwork env n w =
     (Returned, w\<lparr>events := events w @ [Exec (end_command (art_format cur))]\<rparr>)"
  by (simp add: changeArtwork_def startArt_showing)

text \<open>With an artwork on display no call of \<open>changeArtwork\<close> starts a process or changes
  the current artwork, whatever is assigned and however the download ends.\<close>

lemma changeArtwork_showing_never_starts:
  "fc_current_artwork w = Some cur \<Longrightarrow>
   (\<forall>b args. Spawn b args \<notin> set (new_events w (snd (changeArtwork env n w))))
   \<and> processes (snd (changeArtwork env n w)) = processes w
   \<and> processStack (snd (changeArtwork env n w)) = processStack w
   \<and> fc_current_artwork (snd (changeArtwork env n w)) = Some cur"
  by (simp add: changeArtwork_def Let_def new_events_def startArt_showing
      split: option.splits promise.splits)

section \<open>The controller: claims\<close>

text \<open>
  Claim C1. With an artwork on display, \<open>changeArtwork\<close> should run the end command of
  the outgoing artwork, then start the new command, then store the new artwork as current.
  The code passes the start and the store as a callback to \<open>proc_man.exec\<close>, whose
  function \<open>_exec(command)\<close> takes one argument and never calls it: only the end command
  is run. On a frame that shows \<open>art_site\<close> as process 11 and is assigned \<open>art_video\<close>,
  the one new event is the \<open>exec\<close> of \<open>pkill chromium\<close>; no process is spawned, the
  active sequence is still \<open>[11]\<close> and the current artwork is still \<open>art_site\<close>.
\<close>

theorem switch_while_showing_starts_nothing:
  "fc_current_artwork (showing_world art_video) = Some art_site
   \<and> processStack (showing_world art_video) = [11]
   \<and> ofrc_frame (showing_world art_video) = Some (kitchen_frame (Some ''f1'') (Some art_video))
   \<and> changeArtwork env_ok 12 (showing_world art_video) =
       (Returned, (showing_world art_video)
          \<lparr>events := events (showing_world art_video) @ [Exec (Some ''pkill chromium'')]\<rparr>)
   \<and> new_events (showing_world art_video) (snd (changeArtwork env_ok 12 (showing_world art_video)))
       = [Exec (Some ''pkill chromium'')]
   \<and> processStack (snd (changeArtwork env_ok 12 (showing_world art_video))) = [11]
   \<and> processes (snd (changeArtwork env_ok 12 (showing_world art_video))) 12 = None
   \<and> fc_current_artwork (snd (changeArtwork env_ok 12 (showing_world art_video))) = Some art_site"
  by (simp add: example_defs controller_defs)

text \<open>
  Claim C3, as amended. When the download of the assigned artwork is rejected,
  \<open>changeArtwork\<close> has called \<open>downloadFile\<close> and nothing else: no process is started, the
  mapping, the active sequence and the current artwork are as before. The error does not
  reach the caller: the function has returned normally, and the rejection stays with a
  promise that has no handler.
\<close>

theorem fetch_failure_stays_unhandled:
  "ofrc_frame w = Some f \<Longrightarrow> frame_current_artwork f = Some a \<Longrightarrow> download (art_format a) \<Longrightarrow>
   downloadFile env (art_url a) (art_id a @ path_basename env (url_pathname env (art_url a)))
     = Rejected e \<Longrightarrow>
   changeArtwork env n w =
     (Returned,
      w\<lparr>events := events w @
           [DownloadFile (art_url a) (art_id a @ path_basename env (url_pathname env (art_url a)))],
        unhandled := unhandled w @ [e]\<rparr>)
   \<and> new_events w (snd (changeArtwork env n w)) =
       [DownloadFile (art_url a) (art_id a @ path_basename env (url_pathname env (art_url a)))]
   \<and> processes (snd (changeArtwork env n w)) = processes w
   \<and> processStack (snd (changeArtwork env n w)) = processStack w
   \<and> fc_current_artwork (snd (changeArtwork env n w)) = fc_current_artwork w"
  by (simp add: changeArtwork_def Let_def new_events_def)

text \<open>The theorem on an idle frame assigned \<open>art_shader\<close>, with a download that is refused.\<close>

theorem fetch_failure_stays_unhandled_witness:
  "ofrc_frame (idle_world art_shader) = Some (kitchen_frame (Some ''f1'') (Some art_shader))
   \<and> download (art_format art_shader)
   \<and> downloadFile env_fetch_fails (art_url art_shader) ''a3wave.frag'' = Rejected (Err ''ECONNREFUSED'')
   \<and> changeArtwork env_fetch_fails 12 (idle_world art_shader) =
       (Returned,
        (idle_world art_shader)
          \<lparr>events := [DownloadFile ''http://example.org/shaders/wave.frag'' ''a3wave.frag''],
           unhandled := [Err ''ECONNREFUSED'']\<rparr>)
   \<and> processStack (snd (changeArtwork env_fetch_fails 12 (idle_world art_shader))) = []
   \<and> fc_current_artwork (snd (changeArtwork env_fetch_fails 12 (idle_world art_shader))) = None"
  using fetch_failure_stays_unhandled [of "idle_world art_shader"
      "kitchen_frame (Some ''f1'') (Some art_shader)" art_shader env_fetch_fails
      "Err ''ECONNREFUSED''" 12]
  by (simp add: example_defs controller_defs)

text \<open>The claim as written, that the error is propagated to the caller, fails there: the
  download is rejected with \<open>ECONNREFUSED\<close> and the call returns normally.\<close>

theorem fetch_failure_propagates_counterexample:
  "downloadFile env_fetch_fails (art_url art_shader) ''a3wave.frag'' = Rejected (Err ''ECONNREFUSED'')
   \<and> new_events (idle_world art_shader) (snd (changeArtwork env_fetch_fails 12 (idle_world art_shader)))
       = [DownloadFile (art_url art_shader) ''a3wave.frag'']
   \<and> fst (changeArtwork env_fetch_fails 12 (idle_world art_shader)) = Returned
   \<and> fst (changeArtwork env_fetch_fails 12 (idle_world art_shader)) \<noteq> Threw (Err ''ECONNREFUSED'')"
  by (simp add: example_defs controller_defs)

text \<open>
  Claim C4. In the calls a connection attempt makes, no lookup by id (\<open>Frame_findById\<close>)
  comes at or after a registration (\<open>create_frames\<close>). A registration is made only when
  the test \<open>frame && frame.id\<close> of \<open>updateFrame\<close> fails (no frame, no id, or an empty id),
  or when the lookup was made and rejected. When the test succeeds the lookup is the first
  call of the attempt; when it fails no lookup is made at all, and for a frame without an
  id the first call is the registration under the frame's name.
\<close>

theorem connect_looks_up_before_register:
  "(\<forall>e \<in> set (dropWhile (\<lambda>e. \<not> is_register e) (new_events w (snd (connect env u w)))).
       \<not> is_lookup e)
   \<and> ((\<exists>e \<in> set (new_events w (snd (connect env u w))). is_register e) \<longrightarrow>
        usable_id (ofrc_frame w) = None
        \<or> (\<exists>i err. usable_id (ofrc_frame w) = Some i \<and> findById env i = Rejected err))
   \<and> (\<forall>i. usable_id (ofrc_frame w) = Some i \<longrightarrow>
          take 1 (new_events w (snd (connect env u w))) = [FindById i])
   \<and> (usable_id (ofrc_frame w) = None \<longrightarrow>
        (\<forall>e \<in> set (new_events w (snd (connect env u w))). \<not> is_lookup e)
        \<and> (\<forall>f. ofrc_frame w = Some f \<longrightarrow>
              take 1 (new_events w (snd (connect env u w))) =
                [CreateFrames u (frame_name f) default_plugins]))"
  using connect_shape [of w env u]
proof (elim disjE exE conjE)
  assume "ofrc_frame w = None" "new_events w (snd (connect env u w)) = []"
  then show ?thesis by (simp add: usable_id_def)
next
  fix f xs
  assume "usable_id (ofrc_frame w) = None" "ofrc_frame w = Some f"
    "new_events w (snd (connect env u w)) = CreateFrames u (frame_name f) default_plugins # xs"
    "quiet xs"
  then show ?thesis by (auto simp: quiet_def)
next
  fix i found xs
  assume "usable_id (ofrc_frame w) = Some i" "findById env i = Fulfilled found"
    "new_events w (snd (connect env u w)) = FindById i # xs" "quiet xs"
  then show ?thesis by (auto simp: quiet_def quiet_dropWhile)
next
  fix i e f xs
  assume "usable_id (ofrc_frame w) = Some i" "findById env i = Rejected e" "ofrc_frame w = Some f"
    "new_events w (snd (connect env u w)) =
       FindById i # CreateFrames u (frame_name f) default_plugins # xs" "quiet xs"
  then show ?thesis by (auto simp: quiet_def)
next
  fix i
  assume "usable_id (ofrc_frame w) = Some i" "findById env i = Pending"
    "new_events w (snd (connect env u w)) = [FindById i]"
  then show ?thesis by simp
qed

text \<open>The theorem on a frame with the id \<open>f1\<close> that the server does not know, and on a
  frame without an id.\<close>

theorem connect_looks_up_before_register_witness:
  "usable_id (ofrc_frame (idle_world art_site)) = Some ''f1''
   \<and> findById env_ok ''f1'' = Rejected (Err ''404'')
   \<and> new_events (idle_world art_site) (snd (connect env_ok ''u1'' (idle_world art_site))) =
       [FindById ''f1'', CreateFrames ''u1'' ''kitchen'' default_plugins, ConfigSave,
        InstallPlugins default_plugins, InitPlugins default_plugins, PubsubInit]
   \<and> usable_id (ofrc_frame (pm_init\<lparr>ofrc_frame := Some (kitchen_frame None None)\<rparr>)) = None
   \<and> new_events (pm_init\<lparr>ofrc_frame := Some (kitchen_frame None None)\<rparr>)
        (snd (connect env_known ''u1'' (pm_init\<lparr>ofrc_frame := Some (kitchen_frame None None)\<rparr>))) =
       [CreateFrames ''u1'' ''kitchen'' default_plugins, ConfigSave,
        InstallPlugins default_plugins, InitPlugins default_plugins, PubsubInit]"
  using connect_looks_up_before_register [of "idle_world art_site" env_ok "''u1''"]
    connect_looks_up_before_register
      [of "pm_init\<lparr>ofrc_frame := Some (kitchen_frame None None)\<rparr>" env_known "''u1''"]
  by (simp add: example_defs controller_defs)

text \<open>
  Claim C5. For an assigned artwork with \<open>download\<close> set, the first call of
  \<open>changeArtwork\<close> is \<open>downloadFile\<close>, with the artwork's url and, as destination name, the
  artwork's id followed by the basename of the pathname of the url. Only when the download
  is fulfilled is a command built: the start command, a space, and the path the download
  gave; this is the command \<open>startArt\<close> gets, and with no artwork on display it is the one
  that is spawned.
\<close>

theorem download_before_start_with_local_path:
  "ofrc_frame w = Some f \<Longrightarrow> frame_current_artwork f = Some a \<Longrightarrow> download (art_format a) \<Longrightarrow>
   new_events w (snd (changeArtwork env n w)) =
     DownloadFile (art_url a) (art_id a @ path_basename env (url_pathname env (art_url a))) #
     (case downloadFile env (art_url a)
             (art_id a @ path_basename env (url_pathname env (art_url a))) of
        Fulfilled file_path \<Rightarrow>
          (case fc_current_artwork w of
             None \<Rightarrow>
               [Spawn (hd (split_on (CHR '' '') (start_command (art_format a) @ '' '' @ file_path)))
                      (tl (split_on (CHR '' '') (start_command (art_format a) @ '' '' @ file_path)))]
           | Some shown \<Rightarrow> [Exec (end_command (art_format shown))])
      | Rejected e \<Rightarrow> []
      | Pending \<Rightarrow> [])
   \<and> (\<forall>file_path.
         downloadFile env (art_url a) (art_id a @ path_basename env (url_pathname env (art_url a)))
           = Fulfilled file_path \<longrightarrow>
         changeArtwork env n w =
           (Returned,
            startArt (fc_current_artwork w) a n
              (start_command (art_format a) @ '' '' @ file_path)
              (w\<lparr>events := events w @
                    [DownloadFile (art_url a)
                       (art_id a @ path_basename env (url_pathname env (art_url a)))]\<rparr>)))
   \<and> (\<forall>file_path.
         fc_current_artwork w = None \<and>
         downloadFile env (art_url a) (art_id a @ path_basename env (url_pathname env (art_url a)))
           = Fulfilled file_path \<longrightarrow>
         snd (changeArtwork env n w) =
           (startProcess (start_command (art_format a) @ '' '' @ file_path) n
              (w\<lparr>events := events w @
                    [DownloadFile (art_url a)
                       (art_id a @ path_basename env (url_pathname env (art_url a)))]\<rparr>))
             \<lparr>fc_current_artwork := Some a\<rparr>)"
  by (simp add: changeArtwork_def Let_def new_events_def startArt_events startArt_idle
      split: promise.splits option.splits)

text \<open>The theorem on an idle frame assigned \<open>art_shader\<close>, downloaded to \<open>/tmp/\<close>.\<close>

theorem download_before_start_with_local_path_witness:
  "ofrc_frame (idle_world art_shader) = Some (kitchen_frame (Some ''f1'') (Some art_shader))
   \<and> download (art_format art_shader)
   \<and> fc_current_artwork (idle_world art_shader) = None
   \<and> url_pathname env_ok (art_url art_shader) = ''/shaders/wave.frag''
   \<and> path_basename env_ok ''/shaders/wave.frag'' = ''wave.frag''
   \<and> downloadFile env_ok (art_url art_shader) ''a3wave.frag'' = Fulfilled ''/tmp/a3wave.frag''
   \<and> new_events (idle_world art_shader) (snd (changeArtwork env_ok 12 (idle_world art_shader))) =
       [DownloadFile ''http://example.org/shaders/wave.frag'' ''a3wave.frag'',
        Spawn ''glslViewer'' [''/tmp/a3wave.frag'']]"
  using download_before_start_with_local_path [of "idle_world art_shader"
      "kitchen_frame (Some ''f1'') (Some art_shader)" art_shader env_ok 12]
  by (simp add: example_defs controller_defs)

text \<open>
  Claim C6. For an assigned artwork with \<open>download\<close> not set, \<open>changeArtwork\<close> never
  calls \<open>downloadFile\<close>, and the command \<open>startArt\<close> gets is the start command, a space,
  and the url of the artwork; with no artwork on display it is the one that is spawned.
\<close>

theorem no_download_starts_with_url:
  "ofrc_frame w = Some f \<Longrightarrow> frame_current_artwork f = Some a \<Longrightarrow> \<not> download (art_format a) \<Longrightarrow>
   changeArtwork env n w =
     (Returned,
      startArt (fc_current_artwork w) a n (start_command (art_format a) @ '' '' @ art_url a) w)
   \<and> new_events w (snd (changeArtwork env n w)) =
       (case fc_current_artwork w of
          None \<Rightarrow>
            [Spawn (hd (split_on (CHR '' '') (start_command (art_format a) @ '' '' @ art_url a)))
                   (tl (split_on (CHR '' '') (start_command (art_format a) @ '' '' @ art_url a)))]
        | Some shown \<Rightarrow> [Exec (end_command (art_format shown))])
   \<and> (\<forall>u d. DownloadFile u d \<notin> set (new_events w (snd (changeArtwork env n w))))
   \<and> (fc_current_artwork w = None \<longrightarrow>
        snd (changeArtwork env n w) =
          (startProcess (start_command (art_format a) @ '' '' @ art_url a) n w)
            \<lparr>fc_current_artwork := Some a\<rparr>)"
  by (simp add: changeArtwork_def Let_def new_events_def startArt_events startArt_idle
      split: option.splits)

text \<open>The theorem on an idle frame assigned \<open>art_video\<close>.\<close>

theorem no_download_starts_with_url_witness:
  "ofrc_frame (idle_world art_video) = Some (kitchen_frame (Some ''f1'') (Some art_video))
   \<and> \<not> download (art_format art_video)
   \<and> fc_current_artwork (idle_world art_video) = None
   \<and> new_events (idle_world art_video) (snd (changeArtwork env_ok 12 (idle_world art_video))) =
       [Spawn ''omxplayer'' [''--loop'', ''http://example.org/clips/sea.mp4'']]
   \<and> fc_current_artwork (snd (changeArtwork env_ok 12 (idle_world art_video))) = Some art_video"
  using no_download_starts_with_url [of "idle_world art_video"
      "kitchen_frame (Some ''f1'') (Some art_video)" art_video env_ok 12]
  by (simp add: example_defs controller_defs)

end
